theory Spec2Isabelle
  imports Main "HOL-Library.Word" "HOL-Library.Sublist"
begin

section \<open>The OAuth2 credential supplier (AuthorizerV2)\<close>

text \<open>
  A shallow embedding of the Go type \<open>AuthorizerV2\<close> and of its methods. The methods
  mutate the receiver under a reader/writer lock; here every method takes the state and
  returns the new one, so the model is that of one caller at a time. What the standard
  library does for the code (reading the clock, building and sending the HTTP request,
  decoding JSON) is a parameter of the methods.
\<close>

subsection \<open>Time\<close>

text \<open>
  A \<open>time.Time\<close> is a reading of one clock in nanoseconds; a \<open>time.Duration\<close> is a
  signed 64-bit count of nanoseconds. \<open>Time.Add\<close> is exact on the range of a
  \<open>Duration\<close>, and \<open>Time.Before\<close> is the strict order. \<open>Minute\<close> and \<open>Hour\<close> are
  the constants of package \<open>time\<close>, in nanoseconds; the two durations the code builds
  from them, five minutes and two hours, are far inside the range. \<open>Second\<close> is kept
  as a 64-bit word, since the code multiplies it with a number read from the network
  and the product wraps.
\<close>

type_synonym go_time = int

definition Minute :: int where
  "Minute = 60000000000"

definition Hour :: int where
  "Hour = 3600000000000"

definition Second :: "64 word" where
  "Second = 1000000000"

subsection \<open>Data\<close>

text \<open>\<open>OAuth2TokenResponse\<close>: the decoded body of the token endpoint's answer.
  \<open>ExpiresIn\<close> is a Go \<open>int\<close>, 64 bits wide, read as signed.\<close>

record OAuth2TokenResponse =
  AccessToken :: string
  RefreshToken :: string
  TokenType :: string
  ExpiresIn :: "64 word"
  Scope :: string

text \<open>\<open>AuthorizerV2\<close>. The lock and the HTTP client are not fields of the model: the
  client is part of the environment below. \<open>callback\<close> says whether the callback is
  non-nil.\<close>

record AuthorizerV2 =
  accessToken :: string
  refreshToken :: string
  clientID :: string
  clientSecret :: string
  tokenURL :: string
  callback :: bool
  expiresAt :: go_time

text \<open>The part of an \<open>http.Request\<close> that \<open>Add\<close> touches: the header, a map from a
  key to the list of its values (no entry and no value are the same to \<open>Get\<close>). The
  request is one with a header map, as \<open>http.NewRequest\<close> builds it. The only key
  used is \<open>Authorization\<close>, which is its own canonical form.\<close>

record Request =
  Header :: "string \<Rightarrow> string list"

definition Header_Add :: "(string \<Rightarrow> string list) \<Rightarrow> string \<Rightarrow> string \<Rightarrow> (string \<Rightarrow> string list)" where
  \<comment> \<open>\<open>Header.Add\<close> appends to the values the key already has\<close>
  "Header_Add h key v = h(key := h key @ [v])"

definition Header_Get :: "(string \<Rightarrow> string list) \<Rightarrow> string \<Rightarrow> string" where
  \<comment> \<open>\<open>Header.Get\<close> is the first value of the key, or the empty string\<close>
  "Header_Get h key = (case h key of [] \<Rightarrow> [] | v # _ \<Rightarrow> v)"

text \<open>The refresh request that \<open>refreshAccessToken\<close> builds: a POST to the token URL
  with a form, a content type and basic authentication.\<close>

record RefreshRequest =
  Method :: string
  URL :: string
  Form :: "(string \<times> string) list"
  ContentType :: string
  BasicAuth :: "string \<times> string"

record Response =
  StatusCode :: int
  Body :: string

text \<open>The environment of one call: \<open>NewRequestWithContext\<close> gives the error of
  building a request for a URL (\<open>None\<close> when it succeeds), \<open>client_Do\<close> sends the
  request (a transport failure or a cancelled context is \<open>Inl\<close>), \<open>json_Decode\<close>
  decodes a body into the response struct.\<close>

record env =
  NewRequestWithContext :: "string \<Rightarrow> string option"
  client_Do :: "RefreshRequest \<Rightarrow> string + Response"
  json_Decode :: "string \<Rightarrow> string + OAuth2TokenResponse"

text \<open>What a call does to the outside: the requests it sends and the callbacks it
  starts, in order.\<close>

datatype effect = is_HttpDo: HttpDo RefreshRequest | CallbackGo string string

subsection \<open>Formatting\<close>

fun utoa :: "nat \<Rightarrow> string" where
  "utoa n = (if n < 10 then [''0123456789'' ! n]
             else utoa (n div 10) @ [''0123456789'' ! (n mod 10)])"

declare utoa.simps [simp del]

definition itoa :: "int \<Rightarrow> string" where
  \<comment> \<open>the verb \<open>%d\<close>\<close>
  "itoa i = (if i < 0 then ''-'' @ utoa (nat (- i)) else utoa (nat i))"

subsection \<open>The methods\<close>

definition NewAuthorizerV2 :: "go_time \<Rightarrow> string \<Rightarrow> string \<Rightarrow> string \<Rightarrow> string \<Rightarrow> bool \<Rightarrow> AuthorizerV2" where
  "NewAuthorizerV2 now accessToken' refreshToken' clientID' clientSecret' callback' =
     (let auth = \<lparr> accessToken = accessToken',
                    refreshToken = refreshToken',
                    clientID = clientID',
                    clientSecret = clientSecret',
                    tokenURL = ''https://api.twitter.com/2/oauth2/token'',
                    callback = callback',
                    expiresAt = now + 2 * Hour \<rparr>
      in if refreshToken' = ''''
         then auth\<lparr> clientID := '''', clientSecret := '''', tokenURL := '''' \<rparr>
         else auth)"

text \<open>The request of the exchange, as \<open>refreshAccessToken\<close> prepares it: the form
  values, the content type and the basic authentication.\<close>

definition refresh_req :: "AuthorizerV2 \<Rightarrow> string \<Rightarrow> RefreshRequest" where
  "refresh_req s refreshToken' =
     \<lparr> Method = ''POST'',
       URL = tokenURL s,
       Form = [(''grant_type'', ''refresh_token''),
               (''refresh_token'', refreshToken'),
               (''client_id'', clientID s)],
       ContentType = ''application/x-www-form-urlencoded'',
       BasicAuth = (clientID s, clientSecret s) \<rparr>"

definition refreshAccessToken ::
  "env \<Rightarrow> go_time \<Rightarrow> AuthorizerV2 \<Rightarrow> string \<Rightarrow> (string + string) \<times> AuthorizerV2 \<times> effect list" where
  "refreshAccessToken e now s refreshToken' =
     (if refreshToken' = '''' then (Inl ''no refresh token available'', s, [])
      else
        case NewRequestWithContext e (tokenURL s) of
          Some err \<Rightarrow> (Inl (''failed to create refresh request: '' @ err), s, [])
        | None \<Rightarrow>
            let req = refresh_req s refreshToken'
            in case client_Do e req of
                 Inl err \<Rightarrow> (Inl (''failed to refresh token: '' @ err), s, [HttpDo req])
               | Inr resp \<Rightarrow>
                   if StatusCode resp \<noteq> 200
                   then (Inl (''token refresh failed with status '' @ itoa (StatusCode resp)
                              @ '': '' @ Body resp), s, [HttpDo req])
                   else
                     case json_Decode e (Body resp) of
                       Inl err \<Rightarrow>
                         (Inl (''failed to decode token response: '' @ err), s, [HttpDo req])
                     | Inr tokenResp \<Rightarrow>
                         let s1 = s\<lparr> accessToken := AccessToken tokenResp \<rparr>;
                             s2 = (if RefreshToken tokenResp \<noteq> ''''
                                   then s1\<lparr> refreshToken := RefreshToken tokenResp \<rparr>
                                   else s1);
                             s3 = (if 0 < sint (ExpiresIn tokenResp)
                                   then s2\<lparr> expiresAt := now + sint (ExpiresIn tokenResp * Second) \<rparr>
                                   else s2\<lparr> expiresAt := now + 2 * Hour \<rparr>);
                             newAccessToken = accessToken s3;
                             newRefreshToken = refreshToken s3
                         in (Inr newAccessToken, s3,
                             HttpDo req #
                               (if callback s then [CallbackGo newAccessToken newRefreshToken]
                                else [])))"

text \<open>\<open>getValidToken\<close> reads the clock for the check (\<open>now\<close>); the exchange reads it
  again when it stores the answer (\<open>now'\<close>).\<close>

definition getValidToken ::
  "env \<Rightarrow> go_time \<Rightarrow> go_time \<Rightarrow> AuthorizerV2 \<Rightarrow> (string + string) \<times> AuthorizerV2 \<times> effect list" where
  "getValidToken e now now' s =
     (if now + 5 * Minute < expiresAt s then (Inr (accessToken s), s, [])
      else refreshAccessToken e now' s (refreshToken s))"

definition Add ::
  "env \<Rightarrow> go_time \<Rightarrow> go_time \<Rightarrow> AuthorizerV2 \<Rightarrow> Request \<Rightarrow> AuthorizerV2 \<times> Request \<times> effect list" where
  "Add e now now' s req =
     (if refreshToken s = ''''
      then (s, req\<lparr> Header := Header_Add (Header req) ''Authorization''
                                 (''Bearer '' @ accessToken s) \<rparr>, [])
      else
        case getValidToken e now now' s of
          (r, s', fx) \<Rightarrow>
            let token = (case r of Inl err \<Rightarrow> accessToken s' | Inr t \<Rightarrow> t)
            in (s', req\<lparr> Header := Header_Add (Header req) ''Authorization''
                                      (''Bearer '' @ token) \<rparr>, fx))"

definition UpdateTokens :: "AuthorizerV2 \<Rightarrow> string \<Rightarrow> string \<Rightarrow> AuthorizerV2" where
  "UpdateTokens s accessToken' refreshToken' =
     (let s1 = (if accessToken' \<noteq> '''' then s\<lparr> accessToken := accessToken' \<rparr> else s)
      in if refreshToken' \<noteq> '''' then s1\<lparr> refreshToken := refreshToken' \<rparr> else s1)"

definition GetTokens :: "AuthorizerV2 \<Rightarrow> string \<times> string" where
  "GetTokens s = (accessToken s, refreshToken s)"

text \<open>\<open>ForceRefresh\<close> returns the error (\<open>None\<close> is nil).\<close>

definition ForceRefresh ::
  "env \<Rightarrow> go_time \<Rightarrow> AuthorizerV2 \<Rightarrow> string option \<times> AuthorizerV2 \<times> effect list" where
  "ForceRefresh e now s =
     (let refreshToken' = refreshToken s
      in if refreshToken' = '''' then (Some ''no refresh token available'', s, [])
         else
           case refreshAccessToken e now s refreshToken' of
             (r, s', fx) \<Rightarrow> ((case r of Inl err \<Rightarrow> Some err | Inr _ \<Rightarrow> None), s', fx))"

subsection \<open>Sequences of calls\<close>

text \<open>The calls a client of the package can make on a supplier, each with the
  environment and the clock readings it meets, and the state after a call.\<close>

datatype op =
    OpAdd env go_time go_time Request
  | OpForceRefresh env go_time
  | OpGetTokens
  | OpUpdateTokens string string

fun step :: "AuthorizerV2 \<Rightarrow> op \<Rightarrow> AuthorizerV2" where
  "step s (OpAdd e now now' req) = fst (Add e now now' s req)"
| "step s (OpForceRefresh e now) = fst (snd (ForceRefresh e now s))"
| "step s OpGetTokens = s"
| "step s (OpUpdateTokens a r) = UpdateTokens s a r"

subsection \<open>Concrete suppliers, endpoints and requests\<close>

text \<open>An endpoint that accepts every URL, answers every request with \<open>resp\<close> and
  whose body decodes to \<open>dec\<close>; and one that cannot be reached.\<close>

definition mock_env :: "Response \<Rightarrow> string + OAuth2TokenResponse \<Rightarrow> env" where
  "mock_env resp dec =
     \<lparr> NewRequestWithContext = (\<lambda>u. None),
       client_Do = (\<lambda>r. Inr resp),
       json_Decode = (\<lambda>b. dec) \<rparr>"

definition down_env :: "string \<Rightarrow> env" where
  "down_env err =
     \<lparr> NewRequestWithContext = (\<lambda>u. None),
       client_Do = (\<lambda>r. Inl err),
       json_Decode = (\<lambda>b. Inl ''EOF'') \<rparr>"

text \<open>The suppliers and the answer of the package's own tests.\<close>

definition supplier0 :: AuthorizerV2 where
  "supplier0 =
     NewAuthorizerV2 0 ''old_access'' ''old_refresh'' ''client_id'' ''client_secret'' True"

definition static0 :: AuthorizerV2 where
  "static0 = NewAuthorizerV2 0 ''test_token'' '''' '''' '''' False"

definition new_tokens :: OAuth2TokenResponse where
  "new_tokens =
     \<lparr> AccessToken = ''new_access_token'', RefreshToken = ''new_refresh_token'',
       TokenType = ''Bearer'', ExpiresIn = 7200, Scope = '''' \<rparr>"

definition ok_resp :: Response where
  "ok_resp = \<lparr> StatusCode = 200, Body = ''{...}'' \<rparr>"

text \<open>An answer whose lifetime in nanoseconds does not fit 64 bits; the decoding of the
  body \<open>{}\<close>, where every field keeps its zero value; a body cut off after its first
  byte, on which the decoder reports an unexpected end; an answer with another status.\<close>

definition long_lived :: OAuth2TokenResponse where
  "long_lived =
     \<lparr> AccessToken = ''new_access_token'', RefreshToken = ''new_refresh_token'',
       TokenType = ''Bearer'', ExpiresIn = 9223372037, Scope = '''' \<rparr>"

definition zero_tokens :: OAuth2TokenResponse where
  "zero_tokens =
     \<lparr> AccessToken = '''', RefreshToken = '''', TokenType = '''', ExpiresIn = 0, Scope = '''' \<rparr>"

definition empty_object_resp :: Response where
  "empty_object_resp = \<lparr> StatusCode = 200, Body = ''{}'' \<rparr>"

definition truncated_resp :: Response where
  "truncated_resp = \<lparr> StatusCode = 200, Body = ''{'' \<rparr>"

definition unavailable_resp :: Response where
  "unavailable_resp = \<lparr> StatusCode = 503, Body = ''upstream unavailable'' \<rparr>"

text \<open>A fresh request, and one that carries an \<open>Authorization\<close> value already.\<close>

definition fresh_request :: Request where
  "fresh_request = \<lparr> Header = (\<lambda>k. []) \<rparr>"

definition basic_request :: Request where
  "basic_request = \<lparr> Header = (\<lambda>k. [])(''Authorization'' := [''Basic dXNlcjpwYXNz'']) \<rparr>"



section \<open>Properties\<close>

subsection \<open>The exchange, case by case\<close>

lemma sint_mul_Second:
  assumes "0 < sint (x :: 64 word)" "sint x * 1000000000 < 2 ^ 63"
  shows "sint (x * Second) = sint x * 1000000000"
proof -
  have s: "sint Second = 1000000000"
    by (simp add: Second_def)
  have "sint (x * Second) = signed_take_bit 63 (sint x * 1000000000)"
    by (simp add: sint_word_mult s)
  also have "\<dots> = sint x * 1000000000"
    using assms by (intro signed_take_bit_int_eq_self) simp_all
  finally show ?thesis .
qed

lemma refreshAccessToken_ok:
  assumes "rt \<noteq> ''''"
    and "NewRequestWithContext e (tokenURL s) = None"
    and "client_Do e (refresh_req s rt) = Inr resp"
    and "StatusCode resp = 200"
    and "json_Decode e (Body resp) = Inr tr"
  shows "refreshAccessToken e now s rt =
    (Inr (AccessToken tr),
     s\<lparr> accessToken := AccessToken tr,
        refreshToken := (if RefreshToken tr \<noteq> '''' then RefreshToken tr else refreshToken s),
        expiresAt := (if 0 < sint (ExpiresIn tr) then now + sint (ExpiresIn tr * Second)
                      else now + 2 * Hour) \<rparr>,
     HttpDo (refresh_req s rt) #
       (if callback s
        then [CallbackGo (AccessToken tr)
                (if RefreshToken tr \<noteq> '''' then RefreshToken tr else refreshToken s)]
        else []))"
  using assms by (simp add: refreshAccessToken_def Let_def)

lemma refreshAccessToken_status:
  assumes "rt \<noteq> ''''"
    and "NewRequestWithContext e (tokenURL s) = None"
    and "client_Do e (refresh_req s rt) = Inr resp"
    and "StatusCode resp \<noteq> 200"
  shows "refreshAccessToken e now s rt =
    (Inl (''token refresh failed with status '' @ itoa (StatusCode resp) @ '': '' @ Body resp),
     s, [HttpDo (refresh_req s rt)])"
  using assms by (simp add: refreshAccessToken_def Let_def)

lemma refreshAccessToken_decode:
  assumes "rt \<noteq> ''''"
    and "NewRequestWithContext e (tokenURL s) = None"
    and "client_Do e (refresh_req s rt) = Inr resp"
    and "StatusCode resp = 200"
    and "json_Decode e (Body resp) = Inl err"
  shows "refreshAccessToken e now s rt =
    (Inl (''failed to decode token response: '' @ err), s, [HttpDo (refresh_req s rt)])"
  using assms by (simp add: refreshAccessToken_def Let_def)

lemma refreshAccessToken_Inl:
  assumes "fst (refreshAccessToken e now s rt) = Inl err"
  shows "fst (snd (refreshAccessToken e now s rt)) = s"
  using assms
  by (auto simp: refreshAccessToken_def Let_def split: if_splits option.splits sum.splits)

lemma refreshAccessToken_keeps_refresh:
  assumes "refreshToken s \<noteq> ''''"
  shows "refreshToken (fst (snd (refreshAccessToken e now s rt))) \<noteq> ''''"
  using assms
  by (auto simp: refreshAccessToken_def Let_def split: if_splits option.splits sum.splits)

lemma refreshAccessToken_not_missing:
  assumes "rt \<noteq> ''''"
  shows "fst (refreshAccessToken e now s rt) \<noteq> Inl ''no refresh token available''"
  using assms
  by (auto simp: refreshAccessToken_def Let_def split: if_splits option.splits sum.splits)



lemma ForceRefresh_refresh_mode:
  assumes "refreshToken s \<noteq> ''''"
  shows "ForceRefresh e now s =
    ((case fst (refreshAccessToken e now s (refreshToken s)) of
        Inl err \<Rightarrow> Some err | Inr t \<Rightarrow> None),
     snd (refreshAccessToken e now s (refreshToken s)))"
  using assms by (simp add: ForceRefresh_def Let_def split: prod.splits)

lemma Add_refresh_mode:
  assumes "refreshToken s \<noteq> ''''"
  shows "Add e now now' s req =
    (fst (snd (getValidToken e now now' s)),
     req\<lparr> Header := Header_Add (Header req) ''Authorization''
        (''Bearer '' @ (case fst (getValidToken e now now' s) of
                          Inl err \<Rightarrow> accessToken (fst (snd (getValidToken e now now' s)))
                        | Inr t \<Rightarrow> t)) \<rparr>,
     snd (snd (getValidToken e now now' s)))"
  using assms by (cases "getValidToken e now now' s") (simp add: Add_def Let_def split: sum.splits)

lemma step_keeps_refresh:
  assumes "refreshToken s \<noteq> ''''"
  shows "refreshToken (step s x) \<noteq> ''''"
proof (cases x)
  case (OpAdd e now now' req)
  then show ?thesis
    using assms refreshAccessToken_keeps_refresh [OF assms, of e now' "refreshToken s"]
    by (simp add: Add_refresh_mode getValidToken_def)
next
  case (OpForceRefresh e now)
  then show ?thesis
    using assms refreshAccessToken_keeps_refresh [OF assms, of e now "refreshToken s"]
    by (simp add: ForceRefresh_refresh_mode)
next
  case OpGetTokens
  then show ?thesis using assms by simp
next
  case (OpUpdateTokens a r)
  then show ?thesis using assms by (simp add: UpdateTokens_def Let_def)
qed

lemma itoa_503: "itoa 503 = ''503''"
  by code_simp

lemma itoa_200: "itoa 200 = ''200''"
  by code_simp

subsection \<open>The properties of the specification\<close>

text \<open>
  C1, as amended. In refresh mode, after an exchange that is answered with status 200
  and a body that decodes (through \<open>ForceRefresh\<close>, or through \<open>Add\<close> on a stale
  token): the stored access token is the answer's; the stored refresh token is the
  answer's when that is non-empty, and the previous one otherwise; the expiry is the
  clock reading plus the answer's lifetime in seconds when that is positive and its
  count of nanoseconds fits a signed 64-bit duration, and the clock reading plus two
  hours when the lifetime is zero or negative; \<open>GetTokens\<close> returns that pair.
\<close>

theorem exchange_success:
  assumes "refreshToken s \<noteq> ''''"
    and "NewRequestWithContext e (tokenURL s) = None"
    and "client_Do e (refresh_req s (refreshToken s)) = Inr resp"
    and "StatusCode resp = 200"
    and "json_Decode e (Body resp) = Inr tr"
    and "s' = fst (snd (ForceRefresh e now s))
         \<or> (expiresAt s \<le> now0 + 5 * Minute \<and> s' = fst (Add e now0 now s req))"
  shows "accessToken s' = AccessToken tr
    \<and> refreshToken s' = (if RefreshToken tr \<noteq> '''' then RefreshToken tr else refreshToken s)
    \<and> (0 < sint (ExpiresIn tr) \<and> sint (ExpiresIn tr) * 1000000000 < 2 ^ 63 \<longrightarrow>
         expiresAt s' = now + sint (ExpiresIn tr) * 1000000000)
    \<and> (sint (ExpiresIn tr) \<le> 0 \<longrightarrow> expiresAt s' = now + 2 * Hour)
    \<and> GetTokens s' =
        (AccessToken tr, if RefreshToken tr \<noteq> '''' then RefreshToken tr else refreshToken s)"
proof -
  let ?s = "s\<lparr> accessToken := AccessToken tr,
        refreshToken := (if RefreshToken tr \<noteq> '''' then RefreshToken tr else refreshToken s),
        expiresAt := (if 0 < sint (ExpiresIn tr) then now + sint (ExpiresIn tr * Second)
                      else now + 2 * Hour) \<rparr>"
  have r: "fst (snd (refreshAccessToken e now s (refreshToken s))) = ?s"
    using assms(1-5) by (simp add: refreshAccessToken_ok)
  have f: "fst (snd (ForceRefresh e now s)) = ?s"
    using assms(1) r by (simp add: ForceRefresh_refresh_mode)
  have a: "fst (Add e now0 now s req) = ?s" if "expiresAt s \<le> now0 + 5 * Minute"
    using assms(1) r that by (simp add: Add_refresh_mode getValidToken_def)
  have s': "s' = ?s"
    using assms(6) f a by auto
  show ?thesis
    using sint_mul_Second [of "ExpiresIn tr"] by (simp add: s' GetTokens_def)
qed

theorem exchange_success_witness:
  "accessToken (fst (snd (ForceRefresh (mock_env ok_resp (Inr new_tokens)) 5 supplier0)))
     = ''new_access_token''
   \<and> refreshToken (fst (snd (ForceRefresh (mock_env ok_resp (Inr new_tokens)) 5 supplier0)))
     = ''new_refresh_token''
   \<and> expiresAt (fst (snd (ForceRefresh (mock_env ok_resp (Inr new_tokens)) 5 supplier0)))
     = 5 + 7200 * 1000000000
   \<and> GetTokens (fst (snd (ForceRefresh (mock_env ok_resp (Inr new_tokens)) 5 supplier0)))
     = (''new_access_token'', ''new_refresh_token'')
   \<and> expiresAt (fst (Add (mock_env empty_object_resp (Inr zero_tokens)) 7200000000000
        7200000000001 supplier0 fresh_request)) = 7200000000001 + 2 * Hour
   \<and> GetTokens (fst (Add (mock_env empty_object_resp (Inr zero_tokens)) 7200000000000
        7200000000001 supplier0 fresh_request)) = ('''', ''old_refresh'')"
proof -
  have 1: "refreshToken supplier0 \<noteq> ''''"
    by (simp add: supplier0_def NewAuthorizerV2_def)
  have r: "refreshToken supplier0 = ''old_refresh''"
    by (simp add: supplier0_def NewAuthorizerV2_def)
  have 2: "NewRequestWithContext (mock_env resp dec) (tokenURL supplier0) = None" for resp dec
    by (simp add: mock_env_def)
  have 3: "client_Do (mock_env resp dec) (refresh_req supplier0 (refreshToken supplier0))
      = Inr resp" for resp dec
    by (simp add: mock_env_def)
  have 4: "StatusCode ok_resp = 200" "StatusCode empty_object_resp = 200"
    by (simp_all add: ok_resp_def empty_object_resp_def)
  have 5: "json_Decode (mock_env resp (Inr tr)) (Body resp) = Inr tr" for resp tr
    by (simp add: mock_env_def)
  have 6: "expiresAt supplier0 \<le> 7200000000000 + 5 * Minute
      \<and> fst (Add (mock_env empty_object_resp (Inr zero_tokens)) 7200000000000 7200000000001
           supplier0 fresh_request)
        = fst (Add (mock_env empty_object_resp (Inr zero_tokens)) 7200000000000 7200000000001
           supplier0 fresh_request)"
    by (simp add: supplier0_def NewAuthorizerV2_def Hour_def Minute_def)
  show ?thesis
    using exchange_success [OF 1 2 3 4(1) 5 disjI1 [OF refl], where now = 5]
      exchange_success [OF 1 2 3 4(2) 5 disjI2 [OF 6]]
    by (simp add: new_tokens_def zero_tokens_def r)
qed

text \<open>
  C1 as stated fails: a positive lifetime of 9223372037 seconds overflows the 64-bit
  duration, and the stored expiry is some 292 years before the clock reading.
\<close>

theorem exchange_overflow_counterexample:
  "fst (ForceRefresh (mock_env ok_resp (Inr long_lived)) 0 supplier0) = None
   \<and> sint (ExpiresIn long_lived) = 9223372037
   \<and> expiresAt (fst (snd (ForceRefresh (mock_env ok_resp (Inr long_lived)) 0 supplier0)))
       = - 9223372036709551616
   \<and> expiresAt (fst (snd (ForceRefresh (mock_env ok_resp (Inr long_lived)) 0 supplier0)))
       \<noteq> 0 + sint (ExpiresIn long_lived) * 1000000000"
  by (simp add: ForceRefresh_def refreshAccessToken_def mock_env_def ok_resp_def long_lived_def
      supplier0_def NewAuthorizerV2_def Let_def Second_def)

text \<open>
  C2, as amended. In refresh mode, when the endpoint answers the exchange with a status
  other than 200, or with status 200 and a body that does not decode, \<open>ForceRefresh\<close>
  returns an error and the state is the one before the call. For a status other than
  200 the message of the error contains the status and the body; for a body that does
  not decode it is the decoder's message after a fixed prefix.
\<close>

theorem exchange_failure_atomic:
  assumes "refreshToken s \<noteq> ''''"
    and "NewRequestWithContext e (tokenURL s) = None"
    and "client_Do e (refresh_req s (refreshToken s)) = Inr resp"
  shows "(StatusCode resp \<noteq> 200 \<longrightarrow>
           ForceRefresh e now s =
             (Some (''token refresh failed with status '' @ itoa (StatusCode resp) @ '': ''
                    @ Body resp),
              s, [HttpDo (refresh_req s (refreshToken s))])
           \<and> sublist (itoa (StatusCode resp))
               (''token refresh failed with status '' @ itoa (StatusCode resp) @ '': ''
                @ Body resp)
           \<and> sublist (Body resp)
               (''token refresh failed with status '' @ itoa (StatusCode resp) @ '': ''
                @ Body resp))
    \<and> (StatusCode resp = 200 \<and> json_Decode e (Body resp) = Inl err \<longrightarrow>
           ForceRefresh e now s =
             (Some (''failed to decode token response: '' @ err),
              s, [HttpDo (refresh_req s (refreshToken s))]))"
proof (intro conjI impI)
  assume st: "StatusCode resp \<noteq> 200"
  show "ForceRefresh e now s =
      (Some (''token refresh failed with status '' @ itoa (StatusCode resp) @ '': ''
             @ Body resp),
       s, [HttpDo (refresh_req s (refreshToken s))])"
    using assms st by (simp add: ForceRefresh_refresh_mode refreshAccessToken_status)
  have "sublist (itoa (StatusCode resp))
      (''token refresh failed with status '' @ itoa (StatusCode resp) @ ('': '' @ Body resp))"
    by (rule sublist_appendI)
  then show "sublist (itoa (StatusCode resp))
      (''token refresh failed with status '' @ itoa (StatusCode resp) @ '': '' @ Body resp)"
    by simp
  have "sublist (Body resp)
      ((''token refresh failed with status '' @ itoa (StatusCode resp) @ '': '') @ Body resp)"
    by (rule sublist_append_leftI)
  then show "sublist (Body resp)
      (''token refresh failed with status '' @ itoa (StatusCode resp) @ '': '' @ Body resp)"
    by simp
next
  assume "StatusCode resp = 200 \<and> json_Decode e (Body resp) = Inl err"
  then show "ForceRefresh e now s =
      (Some (''failed to decode token response: '' @ err),
       s, [HttpDo (refresh_req s (refreshToken s))])"
    using assms by (simp add: ForceRefresh_refresh_mode refreshAccessToken_decode)
qed

theorem exchange_failure_atomic_witness:
  "ForceRefresh (mock_env unavailable_resp (Inl ''EOF'')) 0 supplier0 =
     (Some ''token refresh failed with status 503: upstream unavailable'', supplier0,
      [HttpDo (refresh_req supplier0 ''old_refresh'')])
   \<and> ForceRefresh (mock_env truncated_resp (Inl ''unexpected EOF'')) 0 supplier0 =
     (Some ''failed to decode token response: unexpected EOF'', supplier0,
      [HttpDo (refresh_req supplier0 ''old_refresh'')])"
proof -
  have 1: "refreshToken supplier0 \<noteq> ''''"
    by (simp add: supplier0_def NewAuthorizerV2_def)
  have r: "refreshToken supplier0 = ''old_refresh''"
    by (simp add: supplier0_def NewAuthorizerV2_def)
  have 2: "NewRequestWithContext (mock_env resp dec) (tokenURL supplier0) = None" for resp dec
    by (simp add: mock_env_def)
  have 3: "client_Do (mock_env resp dec) (refresh_req supplier0 (refreshToken supplier0))
      = Inr resp" for resp dec
    by (simp add: mock_env_def)
  have a: "StatusCode unavailable_resp \<noteq> 200"
    by (simp add: unavailable_resp_def)
  have b: "StatusCode truncated_resp = 200
      \<and> json_Decode (mock_env truncated_resp (Inl ''unexpected EOF'')) (Body truncated_resp)
        = Inl ''unexpected EOF''"
    by (simp add: truncated_resp_def mock_env_def)
  show ?thesis
    using exchange_failure_atomic [OF 1 2 3, of unavailable_resp "Inl ''EOF''" 0 "''EOF''"]
      exchange_failure_atomic [OF 1 2 3, of truncated_resp "Inl ''unexpected EOF''" 0
        "''unexpected EOF''"] a b
    by (simp add: r unavailable_resp_def itoa_503)
qed

text \<open>
  C2 as stated fails: after a decoding failure the message of the error contains
  neither the status nor the body of the answer.
\<close>

theorem decode_failure_counterexample:
  "fst (ForceRefresh (mock_env truncated_resp (Inl ''unexpected EOF'')) 0 supplier0)
     = Some ''failed to decode token response: unexpected EOF''
   \<and> \<not> sublist (itoa (StatusCode truncated_resp))
         ''failed to decode token response: unexpected EOF''
   \<and> \<not> sublist (Body truncated_resp) ''failed to decode token response: unexpected EOF''"
proof -
  have "fst (ForceRefresh (mock_env truncated_resp (Inl ''unexpected EOF'')) 0 supplier0)
     = Some ''failed to decode token response: unexpected EOF''"
    by (simp add: ForceRefresh_def refreshAccessToken_def mock_env_def truncated_resp_def
        supplier0_def NewAuthorizerV2_def Let_def)
  moreover have "\<not> sublist (itoa (StatusCode truncated_resp))
         ''failed to decode token response: unexpected EOF''"
    by (simp add: truncated_resp_def itoa_200) code_simp
  moreover have "\<not> sublist (Body truncated_resp)
      ''failed to decode token response: unexpected EOF''"
    by (simp add: truncated_resp_def) code_simp
  ultimately show ?thesis by simp
qed




text \<open>
  C4. In refresh mode, when \<open>getValidToken\<close> returns an error, whatever the error,
  \<open>Add\<close> returns no error: it sets the bearer value of the cached access token on the
  request, as a new value of its \<open>Authorization\<close> header, and leaves the state as it
  was.
\<close>

theorem Add_falls_back:
  assumes "refreshToken s \<noteq> ''''"
    and "fst (getValidToken e now now' s) = Inl err"
  shows "Add e now now' s req =
       (s, req\<lparr> Header := Header_Add (Header req) ''Authorization''
                            (''Bearer '' @ accessToken s) \<rparr>,
        snd (snd (getValidToken e now now' s)))
    \<and> Header (fst (snd (Add e now now' s req))) ''Authorization''
        = Header req ''Authorization'' @ [''Bearer '' @ accessToken s]"
proof -
  have "fst (snd (getValidToken e now now' s)) = s"
    using assms(2) refreshAccessToken_Inl [of e now' s "refreshToken s" err]
    by (simp add: getValidToken_def split: if_splits)
  then show ?thesis
    using assms by (simp add: Add_refresh_mode Header_Add_def)
qed

theorem Add_falls_back_witness:
  "Add (down_env ''context canceled'') 7200000000000 7200000000001 supplier0 fresh_request =
     (supplier0,
      fresh_request\<lparr> Header := Header_Add (Header fresh_request) ''Authorization''
                                   ''Bearer old_access'' \<rparr>,
      [HttpDo (refresh_req supplier0 ''old_refresh'')])
   \<and> Add (mock_env unavailable_resp (Inl ''EOF'')) 7200000000000 7200000000001 supplier0
       fresh_request =
     (supplier0,
      fresh_request\<lparr> Header := Header_Add (Header fresh_request) ''Authorization''
                                   ''Bearer old_access'' \<rparr>,
      [HttpDo (refresh_req supplier0 ''old_refresh'')])
   \<and> Add (mock_env truncated_resp (Inl ''unexpected EOF'')) 7200000000000 7200000000001
       supplier0 fresh_request =
     (supplier0,
      fresh_request\<lparr> Header := Header_Add (Header fresh_request) ''Authorization''
                                   ''Bearer old_access'' \<rparr>,
      [HttpDo (refresh_req supplier0 ''old_refresh'')])"
proof -
  have 1: "refreshToken supplier0 \<noteq> ''''"
    by (simp add: supplier0_def NewAuthorizerV2_def)
  have a: "accessToken supplier0 = ''old_access''" "refreshToken supplier0 = ''old_refresh''"
    by (simp_all add: supplier0_def NewAuthorizerV2_def)
  have x: "expiresAt supplier0 = 7200000000000"
    by (simp add: supplier0_def NewAuthorizerV2_def Hour_def)
  have g1: "getValidToken (down_env ''context canceled'') 7200000000000 7200000000001 supplier0
      = (Inl ''failed to refresh token: context canceled'', supplier0,
         [HttpDo (refresh_req supplier0 ''old_refresh'')])"
    by (simp add: getValidToken_def refreshAccessToken_def down_env_def a x Let_def Minute_def)
  have g2: "getValidToken (mock_env unavailable_resp (Inl ''EOF'')) 7200000000000 7200000000001
      supplier0
      = (Inl ''token refresh failed with status 503: upstream unavailable'', supplier0,
         [HttpDo (refresh_req supplier0 ''old_refresh'')])"
    by (simp add: getValidToken_def refreshAccessToken_def mock_env_def unavailable_resp_def
        a x Let_def Minute_def itoa_503)
  have g3: "getValidToken (mock_env truncated_resp (Inl ''unexpected EOF'')) 7200000000000
      7200000000001 supplier0
      = (Inl ''failed to decode token response: unexpected EOF'', supplier0,
         [HttpDo (refresh_req supplier0 ''old_refresh'')])"
    by (simp add: getValidToken_def refreshAccessToken_def mock_env_def truncated_resp_def
        a x Let_def Minute_def)
  have f1: "fst (getValidToken (down_env ''context canceled'') 7200000000000 7200000000001
      supplier0) = Inl ''failed to refresh token: context canceled''"
    by (simp add: g1)
  have f2: "fst (getValidToken (mock_env unavailable_resp (Inl ''EOF'')) 7200000000000
      7200000000001 supplier0)
      = Inl ''token refresh failed with status 503: upstream unavailable''"
    by (simp add: g2)
  have f3: "fst (getValidToken (mock_env truncated_resp (Inl ''unexpected EOF'')) 7200000000000
      7200000000001 supplier0) = Inl ''failed to decode token response: unexpected EOF''"
    by (simp add: g3)
  show ?thesis
    using Add_falls_back [OF 1 f1, of fresh_request] Add_falls_back [OF 1 f2, of fresh_request]
      Add_falls_back [OF 1 f3, of fresh_request]
    by (simp add: g1 g2 g3 a)
qed

text \<open>
  C5, as amended. With an empty refresh token, \<open>Add\<close> appends \<open>Bearer\<close> and the
  stored access token to the values of the request's \<open>Authorization\<close> header, which
  makes it the header's value when the request had none; it sends nothing, keeps the
  state, and its result depends neither on the environment, nor on the clock, nor on
  the expiry.
\<close>

theorem Add_static:
  assumes "refreshToken s = ''''"
  shows "Add e now now' s req =
      (s, req\<lparr> Header := Header_Add (Header req) ''Authorization''
                           (''Bearer '' @ accessToken s) \<rparr>, [])
    \<and> Header (fst (snd (Add e now now' s req))) ''Authorization''
        = Header req ''Authorization'' @ [''Bearer '' @ accessToken s]
    \<and> (Header req ''Authorization'' = [] \<longrightarrow>
         Header_Get (Header (fst (snd (Add e now now' s req)))) ''Authorization''
           = ''Bearer '' @ accessToken s)
    \<and> snd (Add e2 t t' (s\<lparr> expiresAt := x \<rparr>) req) = snd (Add e now now' s req)"
  using assms by (simp add: Add_def Header_Add_def Header_Get_def)

theorem Add_static_witness:
  "Add (down_env ''unreachable'') 0 0 static0 fresh_request =
      (static0, fresh_request\<lparr> Header := Header_Add (Header fresh_request) ''Authorization''
                                  ''Bearer test_token'' \<rparr>, [])
   \<and> Header_Get (Header (fst (snd (Add (down_env ''unreachable'') 0 0 static0 fresh_request))))
        ''Authorization'' = ''Bearer test_token''"
proof -
  have 1: "refreshToken static0 = ''''"
    by (simp add: static0_def NewAuthorizerV2_def)
  have a: "accessToken static0 = ''test_token''"
    by (simp add: static0_def NewAuthorizerV2_def)
  have h: "Header fresh_request ''Authorization'' = []"
    by (simp add: fresh_request_def)
  show ?thesis
    using Add_static [OF 1, of "down_env ''unreachable''" 0 0 fresh_request
        "down_env ''unreachable''" 0 0 0] h
    by (simp add: a Header_Add_def Header_Get_def)
qed

text \<open>
  C5 as stated fails on a request that carries an \<open>Authorization\<close> value already:
  \<open>Header.Add\<close> appends, and the header still reads as the earlier value.
\<close>

theorem Add_static_counterexample:
  "refreshToken static0 = ''''
   \<and> Header (fst (snd (Add (down_env ''unreachable'') 0 0 static0 basic_request)))
        ''Authorization'' = [''Basic dXNlcjpwYXNz'', ''Bearer test_token'']
   \<and> Header_Get (Header (fst (snd (Add (down_env ''unreachable'') 0 0 static0 basic_request))))
        ''Authorization'' = ''Basic dXNlcjpwYXNz''
   \<and> Header_Get (Header (fst (snd (Add (down_env ''unreachable'') 0 0 static0 basic_request))))
        ''Authorization'' \<noteq> ''Bearer '' @ accessToken static0"
  by (simp add: Add_def Header_Add_def Header_Get_def static0_def NewAuthorizerV2_def
      basic_request_def)

text \<open>
  C6. With an empty refresh token \<open>ForceRefresh\<close> returns the error
  \<open>no refresh token available\<close>, keeps the state and sends nothing; with a non-empty
  refresh token it never returns an error with that message.
\<close>

theorem ForceRefresh_no_refresh_token:
  "(refreshToken s = '''' \<longrightarrow>
      ForceRefresh e now s = (Some ''no refresh token available'', s, []))
   \<and> (refreshToken s \<noteq> '''' \<longrightarrow>
      fst (ForceRefresh e now s) \<noteq> Some ''no refresh token available'')"
proof (intro conjI impI)
  assume "refreshToken s = ''''"
  then show "ForceRefresh e now s = (Some ''no refresh token available'', s, [])"
    by (simp add: ForceRefresh_def)
next
  assume r: "refreshToken s \<noteq> ''''"
  then show "fst (ForceRefresh e now s) \<noteq> Some ''no refresh token available''"
    using refreshAccessToken_not_missing [OF r, of e now s]
    by (auto simp: ForceRefresh_refresh_mode split: sum.splits)
qed

theorem ForceRefresh_no_refresh_token_witness:
  "ForceRefresh (mock_env ok_resp (Inr new_tokens)) 0 static0
     = (Some ''no refresh token available'', static0, [])
   \<and> fst (ForceRefresh (down_env ''connection refused'') 0 supplier0)
       \<noteq> Some ''no refresh token available''"
proof -
  have 1: "refreshToken static0 = ''''"
    by (simp add: static0_def NewAuthorizerV2_def)
  have 2: "refreshToken supplier0 \<noteq> ''''"
    by (simp add: supplier0_def NewAuthorizerV2_def)
  show ?thesis
    using ForceRefresh_no_refresh_token [of static0 "mock_env ok_resp (Inr new_tokens)" 0]
      ForceRefresh_no_refresh_token [of supplier0 "down_env ''connection refused''" 0] 1 2
    by simp
qed

text \<open>
  C7. \<open>UpdateTokens\<close> applies each argument on its own: a non-empty argument replaces
  the stored token, an empty one leaves it; nothing else changes, so the expiry, the
  client identifier, the secret, the token URL and the callback keep their values.
\<close>

theorem UpdateTokens_frame:
  "UpdateTokens s a r =
     s\<lparr> accessToken := (if a = [] then accessToken s else a),
        refreshToken := (if r = [] then refreshToken s else r) \<rparr>
   \<and> accessToken (UpdateTokens s a r) = (if a = [] then accessToken s else a)
   \<and> refreshToken (UpdateTokens s a r) = (if r = [] then refreshToken s else r)
   \<and> expiresAt (UpdateTokens s a r) = expiresAt s
   \<and> clientID (UpdateTokens s a r) = clientID s
   \<and> clientSecret (UpdateTokens s a r) = clientSecret s
   \<and> tokenURL (UpdateTokens s a r) = tokenURL s
   \<and> callback (UpdateTokens s a r) = callback s"
  by (simp add: UpdateTokens_def Let_def)

text \<open>
  C8. The constructor clears the client identifier, the secret and the token URL when
  the refresh token is empty; otherwise it keeps the identifier and the secret, sets the
  token URL to the endpoint and the expiry to two hours after the clock reading. It
  stores both tokens as given.
\<close>

theorem NewAuthorizerV2_contract:
  "(r = '''' \<longrightarrow>
      clientID (NewAuthorizerV2 now a r cid cs cb) = ''''
      \<and> clientSecret (NewAuthorizerV2 now a r cid cs cb) = ''''
      \<and> tokenURL (NewAuthorizerV2 now a r cid cs cb) = '''')
   \<and> (r \<noteq> '''' \<longrightarrow>
      clientID (NewAuthorizerV2 now a r cid cs cb) = cid
      \<and> clientSecret (NewAuthorizerV2 now a r cid cs cb) = cs
      \<and> tokenURL (NewAuthorizerV2 now a r cid cs cb) = ''https://api.twitter.com/2/oauth2/token''
      \<and> expiresAt (NewAuthorizerV2 now a r cid cs cb) = now + 2 * Hour)
   \<and> accessToken (NewAuthorizerV2 now a r cid cs cb) = a
   \<and> refreshToken (NewAuthorizerV2 now a r cid cs cb) = r"
  by (simp add: NewAuthorizerV2_def Let_def)

theorem NewAuthorizerV2_contract_witness:
  "clientID static0 = '''' \<and> clientSecret static0 = '''' \<and> tokenURL static0 = ''''
   \<and> clientID supplier0 = ''client_id'' \<and> clientSecret supplier0 = ''client_secret''
   \<and> tokenURL supplier0 = ''https://api.twitter.com/2/oauth2/token''
   \<and> expiresAt supplier0 = 7200000000000"
  using NewAuthorizerV2_contract [of "''''" 0 "''test_token''" "''''" "''''" False]
    NewAuthorizerV2_contract [of "''old_refresh''" 0 "''old_access''" "''client_id''" "''client_secret''" True]
  by (simp add: static0_def supplier0_def Hour_def)

text \<open>
  C9, as amended. An exchange answered with status 200 succeeds whenever the body
  decodes, and the cached access token becomes the decoded one, whatever it is; the
  exchange fails at decoding only when the decoder reports an error, and then the state
  is the one before the call.
\<close>

theorem exchange_stores_decoded_token:
  assumes "rt \<noteq> ''''"
    and "NewRequestWithContext e (tokenURL s) = None"
    and "client_Do e (refresh_req s rt) = Inr resp"
    and "StatusCode resp = 200"
  shows "(json_Decode e (Body resp) = Inr tr \<longrightarrow>
            fst (refreshAccessToken e now s rt) = Inr (AccessToken tr)
            \<and> accessToken (fst (snd (refreshAccessToken e now s rt))) = AccessToken tr)
    \<and> (json_Decode e (Body resp) = Inl err \<longrightarrow>
            fst (refreshAccessToken e now s rt) = Inl (''failed to decode token response: '' @ err)
            \<and> fst (snd (refreshAccessToken e now s rt)) = s)"
  using assms by (simp add: refreshAccessToken_ok refreshAccessToken_decode)

theorem exchange_stores_decoded_token_witness:
  "fst (refreshAccessToken (mock_env ok_resp (Inr new_tokens)) 0 supplier0 ''old_refresh'')
     = Inr ''new_access_token''
   \<and> fst (refreshAccessToken (mock_env truncated_resp (Inl ''unexpected EOF'')) 0 supplier0
          ''old_refresh'')
     = Inl ''failed to decode token response: unexpected EOF''
   \<and> fst (snd (refreshAccessToken (mock_env truncated_resp (Inl ''unexpected EOF'')) 0 supplier0
          ''old_refresh'')) = supplier0"
proof -
  have 1: "''old_refresh'' \<noteq> ''''"
    by simp
  have 2: "NewRequestWithContext (mock_env resp dec) (tokenURL supplier0) = None" for resp dec
    by (simp add: mock_env_def)
  have 3: "client_Do (mock_env resp dec) (refresh_req supplier0 ''old_refresh'') = Inr resp"
    for resp dec
    by (simp add: mock_env_def)
  have 4: "StatusCode ok_resp = 200" "StatusCode truncated_resp = 200"
    by (simp_all add: ok_resp_def truncated_resp_def)
  have 5: "json_Decode (mock_env resp dec) b = dec" for resp dec b
    by (simp add: mock_env_def)
  show ?thesis
    using exchange_stores_decoded_token
        [OF 1 2 [of ok_resp "Inr new_tokens"] 3 [of ok_resp "Inr new_tokens"] 4(1),
         where tr = new_tokens and now = 0]
      exchange_stores_decoded_token
        [OF 1 2 [of truncated_resp "Inl ''unexpected EOF''"]
           3 [of truncated_resp "Inl ''unexpected EOF''"] 4(2),
         where err = "''unexpected EOF''" and now = 0]
    by (simp add: 5 new_tokens_def)
qed

text \<open>
  C9 as stated fails: the body \<open>{}\<close> decodes to the zero value of the struct, the
  exchange succeeds, and the cached access token becomes the empty string.
\<close>

theorem empty_access_token_counterexample:
  "StatusCode empty_object_resp = 200
   \<and> json_Decode (mock_env empty_object_resp (Inr zero_tokens)) (Body empty_object_resp)
       = Inr zero_tokens
   \<and> AccessToken zero_tokens = ''''
   \<and> fst (refreshAccessToken (mock_env empty_object_resp (Inr zero_tokens)) 0 supplier0
          ''old_refresh'') = Inr ''''
   \<and> accessToken supplier0 = ''old_access''
   \<and> accessToken (fst (snd (refreshAccessToken (mock_env empty_object_resp (Inr zero_tokens))
          0 supplier0 ''old_refresh''))) = ''''"
  by (simp add: refreshAccessToken_def mock_env_def empty_object_resp_def zero_tokens_def
      supplier0_def NewAuthorizerV2_def Let_def)

text \<open>
  C10. A non-empty refresh token stays non-empty through every sequence of calls of
  \<open>Add\<close>, \<open>ForceRefresh\<close>, \<open>GetTokens\<close> and \<open>UpdateTokens\<close>, whatever the
  exchanges in them do.
\<close>

theorem refresh_mode_never_demoted:
  assumes "refreshToken s \<noteq> ''''"
  shows "refreshToken (foldl step s ops) \<noteq> ''''"
  using assms
proof (induction ops arbitrary: s)
  case Nil
  then show ?case by simp
next
  case (Cons x xs)
  then show ?case by (simp add: step_keeps_refresh)
qed

theorem refresh_mode_never_demoted_witness:
  "refreshToken supplier0 \<noteq> ''''
   \<and> refreshToken (foldl step supplier0
        [OpUpdateTokens ''restored'' '''',
         OpForceRefresh (mock_env empty_object_resp (Inr zero_tokens)) 1,
         OpAdd (down_env ''connection refused'') 7200000000000 7200000000001 fresh_request,
         OpGetTokens,
         OpForceRefresh (mock_env ok_resp (Inr new_tokens)) 2]) \<noteq> ''''"
proof -
  have 1: "refreshToken supplier0 \<noteq> ''''"
    by (simp add: supplier0_def NewAuthorizerV2_def)
  show ?thesis
    using 1 refresh_mode_never_demoted [OF 1, of
        "[OpUpdateTokens ''restored'' '''',
          OpForceRefresh (mock_env empty_object_resp (Inr zero_tokens)) 1,
          OpAdd (down_env ''connection refused'') 7200000000000 7200000000001 fresh_request,
          OpGetTokens,
          OpForceRefresh (mock_env ok_resp (Inr new_tokens)) 2]"]
    by simp
qed

end
